theory Spec2Isabelle
  imports Main
begin

section \<open>The syntax tree and the type checker's objects, as ident.go reads them\<close>

text \<open>
  ident.go works on values of go/ast, go/types and go/loader. Only the fields and
  methods the file touches are modelled. A nil pointer is \<open>None\<close>.

  A comment group is kept as the string its \<open>Text()\<close> method returns. \<open>Text()\<close> on a
  nil group is the empty string (the method tests its receiver for nil).
\<close>

datatype CommentGroup = CommentGroup string

fun Text :: "CommentGroup option \<Rightarrow> string" where
  "Text None = []"
| "Text (Some (CommentGroup t)) = t"

text \<open>Expressions: a basic literal with its source text, or anything else.\<close>

datatype Expr = BasicLit string | OtherExpr string

record TypeSpec =
  ts_Doc :: "CommentGroup option"
  ts_Name :: string
  ts_Type :: string

record ValueSpec =
  vs_Doc :: "CommentGroup option"
  vs_Names :: "string list"
  vs_Values :: "Expr list"

record ImportSpec =
  is_Doc :: "CommentGroup option"
  is_Path :: string

datatype Spec = TypeSpecS TypeSpec | ValueSpecS ValueSpec | ImportSpecS ImportSpec

datatype Token = tok_IMPORT | tok_CONST | tok_TYPE | tok_VAR

text \<open>The token names carry a prefix: CONST and TYPE are reserved words of the logic.
  \<open>gd_Lparen\<close> and \<open>gd_Rparen\<close> are positions; 0 is \<open>token.NoPos\<close>.\<close>

record GenDecl =
  gd_Doc :: "CommentGroup option"
  gd_Tok :: Token
  gd_Lparen :: int
  gd_Specs :: "Spec list"
  gd_Rparen :: int

record FuncDecl =
  fd_Doc :: "CommentGroup option"
  fd_Name :: string
  fd_Type :: string
  fd_Body :: "string option"

record Field =
  fl_Doc :: "CommentGroup option"
  fl_Names :: "string list"
  fl_Comment :: "CommentGroup option"

text \<open>
  A node of the enclosing path. Every node type that is not \<open>*ast.FuncDecl\<close>,
  \<open>*ast.GenDecl\<close> or \<open>*ast.Field\<close> is \<open>OtherNode\<close>, tagged with its Go type name.
\<close>

datatype Node = FuncDeclN FuncDecl | GenDeclN GenDecl | FieldN Field | OtherNode string

text \<open>
  A \<open>types.Object\<close>: \<open>obj_Pkg\<close> is \<open>Pkg().Path()\<close>, \<open>None\<close> when \<open>Pkg()\<close> is nil;
  \<open>obj_Imported\<close> is \<open>Imported().Path()\<close> when the dynamic type is \<open>*types.PkgName\<close>,
  and \<open>None\<close> for every other dynamic type.
\<close>

record Object =
  obj_Name :: string
  obj_String :: string
  obj_Pkg :: "string option"
  obj_Pos :: int
  obj_Imported :: "string option"

text \<open>An identifier of the syntax tree; \<open>ObjectOf\<close> returns nil for one it does not know.\<close>

record Ident =
  id_NamePos :: int
  id_Name :: string

record PackageInfo =
  ObjectOf :: "Ident \<Rightarrow> Object option"

record Program =
  PathEnclosingInterval :: "int \<Rightarrow> int \<Rightarrow> Node list"

text \<open>The fields of \<open>Doc\<close> that ident.go sets.\<close>

record Doc =
  doc_Import :: string
  doc_Name :: string
  doc_Title :: string
  doc_Doc :: string

text \<open>
  What a call can end in besides a value: the error built by \<open>fmt.Errorf\<close>, with its
  message, or one of the two run-time panics the file can raise.
\<close>

datatype error = Errorf string | NilDereference | TypeAssertion

section \<open>findTypeSpec, findVarSpec\<close>

text \<open>
  Both loops assert the type of every Spec they visit; the assertion has no
  \<open>ok\<close> result, so a Spec of another type panics. Falling off the loop returns nil.
\<close>

fun findTypeSpec_loop :: "Spec list \<Rightarrow> string \<Rightarrow> error + TypeSpec option" where
  "findTypeSpec_loop [] symbol = Inr None"
| "findTypeSpec_loop (TypeSpecS typeSpec # specs) symbol =
     (if symbol = ts_Name typeSpec then Inr (Some typeSpec)
      else findTypeSpec_loop specs symbol)"
| "findTypeSpec_loop (_ # specs) symbol = Inl TypeAssertion"

definition findTypeSpec :: "GenDecl \<Rightarrow> string \<Rightarrow> error + TypeSpec option" where
  "findTypeSpec decl symbol = findTypeSpec_loop (gd_Specs decl) symbol"

fun findVarSpec_loop :: "Spec list \<Rightarrow> string \<Rightarrow> error + ValueSpec option" where
  "findVarSpec_loop [] symbol = Inr None"
| "findVarSpec_loop (ValueSpecS varSpec # specs) symbol =
     (if symbol \<in> set (vs_Names varSpec) then Inr (Some varSpec)
      else findVarSpec_loop specs symbol)"
| "findVarSpec_loop (_ # specs) symbol = Inl TypeAssertion"

definition findVarSpec :: "GenDecl \<Rightarrow> string \<Rightarrow> error + ValueSpec option" where
  "findVarSpec decl symbol = findVarSpec_loop (gd_Specs decl) symbol"

section \<open>formatNode\<close>

text \<open>
  \<open>Fprint\<close> stands for \<open>printer.Config.Fprint\<close> with the program's file set: it gives
  the printed text or an error. \<open>printOr\<close> is the tail of formatNode: the printed
  copy, or \<open>obj.String()\<close> when the printer fails.
\<close>

definition printOr :: "(Node \<Rightarrow> error + string) \<Rightarrow> Object \<Rightarrow> Node \<Rightarrow> string" where
  "printOr Fprint obj nc = (case Fprint nc of Inl err \<Rightarrow> obj_String obj | Inr buf \<Rightarrow> buf)"

text \<open>
  The node handed to the printer (\<open>nc\<close>), or \<open>None\<close> where formatNode returns
  \<open>obj.String()\<close> at once. Dereferencing the nil result of a find is a panic.
\<close>

fun printedCopy :: "Node \<Rightarrow> Object \<Rightarrow> error + Node option" where
  "printedCopy (FuncDeclN n) obj = Inr (Some (FuncDeclN (n\<lparr>fd_Doc := None, fd_Body := None\<rparr>)))"
| "printedCopy (GenDeclN n) obj =
     (let cp = n\<lparr>gd_Doc := None\<rparr> in
      case gd_Specs n of
        [] \<Rightarrow> Inr (Some (GenDeclN cp))
      | TypeSpecS _ # _ \<Rightarrow>
          (case findTypeSpec n (obj_Name obj) of
             Inl e \<Rightarrow> Inl e
           | Inr None \<Rightarrow> Inl NilDereference
           | Inr (Some spec) \<Rightarrow>
               Inr (Some (GenDeclN (cp\<lparr>gd_Specs := [TypeSpecS (spec\<lparr>ts_Doc := None\<rparr>)],
                                        gd_Lparen := 0, gd_Rparen := 0\<rparr>))))
      | ValueSpecS _ # _ \<Rightarrow>
          (case findVarSpec n (obj_Name obj) of
             Inl e \<Rightarrow> Inl e
           | Inr None \<Rightarrow> Inl NilDereference
           | Inr (Some spec) \<Rightarrow>
               Inr (Some (GenDeclN (cp\<lparr>gd_Specs := [ValueSpecS (spec\<lparr>vs_Doc := None\<rparr>)],
                                        gd_Lparen := 0, gd_Rparen := 0\<rparr>))))
      | ImportSpecS _ # _ \<Rightarrow> Inr (Some (GenDeclN cp)))"
| "printedCopy (FieldN n) obj = Inr None"
| "printedCopy (OtherNode k) obj = Inr None"

definition formatNode :: "(Node \<Rightarrow> error + string) \<Rightarrow> Node \<Rightarrow> Object \<Rightarrow> error + string" where
  "formatNode Fprint n obj =
     (case printedCopy n obj of
        Inl e \<Rightarrow> Inl e
      | Inr None \<Rightarrow> Inr (obj_String obj)
      | Inr (Some nc) \<Rightarrow> Inr (printOr Fprint obj nc))"

section \<open>IdentDoc\<close>

definition noDocumentation :: "Object \<Rightarrow> error" where
  "noDocumentation obj = Errorf (''No documentation found for '' @ obj_Name obj)"

text \<open>The first loop: the Doc built at the first FuncDecl, GenDecl or Field; nil if none.\<close>

fun isDecl :: "Node \<Rightarrow> bool" where
  "isDecl (OtherNode k) = False"
| "isDecl _ = True"

fun titleLoop ::
  "(Node \<Rightarrow> error + string) \<Rightarrow> Object \<Rightarrow> string \<Rightarrow> Node list \<Rightarrow> error + Doc option" where
  "titleLoop Fprint obj pkgPath [] = Inr None"
| "titleLoop Fprint obj pkgPath (node # nodes) =
     (if \<not> isDecl node then titleLoop Fprint obj pkgPath nodes
      else case formatNode Fprint node obj of
             Inl e \<Rightarrow> Inl e
           | Inr title \<Rightarrow>
               Inr (Some \<lparr>doc_Import = pkgPath, doc_Name = obj_Name obj,
                          doc_Title = title, doc_Doc = []\<rparr>))"

text \<open>
  The scan for a constant's literal: the inner loop over one Spec's values, and
  \<open>SpecLoop\<close> over the Specs, which a found literal leaves at once. The result is
  \<open>constValue\<close>, still empty when nothing was found.
\<close>

fun valuesLoop :: "Expr list \<Rightarrow> string option" where
  "valuesLoop [] = None"
| "valuesLoop (BasicLit v # vals) = (if v \<noteq> [] then Some v else valuesLoop vals)"
| "valuesLoop (OtherExpr e # vals) = valuesLoop vals"

fun SpecLoop :: "Spec list \<Rightarrow> error + string" where
  "SpecLoop [] = Inr []"
| "SpecLoop (ValueSpecS vs # specs) =
     (case valuesLoop (vs_Values vs) of Some v \<Rightarrow> Inr v | None \<Rightarrow> SpecLoop specs)"
| "SpecLoop (_ # specs) = Inl TypeAssertion"

definition constValueOf :: "GenDecl \<Rightarrow> error + string" where
  "constValueOf n = (if gd_Tok n = tok_CONST then SpecLoop (gd_Specs n) else Inr [])"

definition constantValue :: "string \<Rightarrow> string" where
  "constantValue v = CHR 0x0A # ''Constant Value: '' @ v"

text \<open>
  One turn of the second loop: \<open>Inr (Some d)\<close> is \<open>return d, nil\<close>, \<open>Inr None\<close> goes
  on to the next node.
\<close>

fun docStep :: "Doc \<Rightarrow> Node \<Rightarrow> error + Doc option" where
  "docStep doc (FuncDeclN n) = Inr (Some (doc\<lparr>doc_Doc := Text (fd_Doc n)\<rparr>))"
| "docStep doc (GenDeclN n) =
     (case constValueOf n of
        Inl e \<Rightarrow> Inl e
      | Inr constValue \<Rightarrow>
          (if gd_Doc n \<noteq> None
           then Inr (Some (doc\<lparr>doc_Doc := Text (gd_Doc n) @
                                 (if constValue \<noteq> [] then constantValue constValue else [])\<rparr>))
           else Inr None))"
| "docStep doc (FieldN n) =
     (if fl_Doc n \<noteq> None then Inr (Some (doc\<lparr>doc_Doc := Text (fl_Doc n)\<rparr>))
      else if fl_Comment n \<noteq> None then Inr (Some (doc\<lparr>doc_Doc := Text (fl_Comment n)\<rparr>))
      else Inr None)"
| "docStep doc (OtherNode k) = Inr None"

fun docLoop :: "Doc \<Rightarrow> Node list \<Rightarrow> error + Doc" where
  "docLoop doc [] = Inr doc"
| "docLoop doc (node # nodes) =
     (case docStep doc node of
        Inl e \<Rightarrow> Inl e
      | Inr (Some d) \<Rightarrow> Inr d
      | Inr None \<Rightarrow> docLoop doc nodes)"

text \<open>
  \<open>IdentDoc\<close>. \<open>PackageDoc\<close> is defined in another file of the repository and is a
  parameter here, as is the printer.
\<close>

definition IdentDoc ::
  "(string \<Rightarrow> error + Doc) \<Rightarrow> (Node \<Rightarrow> error + string) \<Rightarrow>
   Ident \<Rightarrow> PackageInfo \<Rightarrow> Program \<Rightarrow> error + Doc" where
  "IdentDoc PackageDoc Fprint ident info prog =
     (case ObjectOf info ident of
        None \<Rightarrow> Inl NilDereference
      | Some obj \<Rightarrow>
          (let pkgPath = (case obj_Pkg obj of None \<Rightarrow> [] | Some path \<Rightarrow> path) in
           case obj_Imported obj of
             Some path \<Rightarrow> PackageDoc path
           | None \<Rightarrow>
               (let nodes = PathEnclosingInterval prog (obj_Pos obj) (obj_Pos obj) in
                if length nodes = 0 then Inl (noDocumentation obj)
                else case titleLoop Fprint obj pkgPath nodes of
                       Inl e \<Rightarrow> Inl e
                     | Inr None \<Rightarrow> Inl (noDocumentation obj)
                     | Inr (Some doc) \<Rightarrow> docLoop doc nodes)))"

section \<open>Vocabulary for stating the properties\<close>

text \<open>A basic literal whose text is not empty, and the text of a literal.\<close>

fun nonEmptyLit :: "Expr \<Rightarrow> bool" where
  "nonEmptyLit (BasicLit v) = (v \<noteq> [])"
| "nonEmptyLit (OtherExpr e) = False"

fun litValue :: "Expr \<Rightarrow> string" where
  "litValue (BasicLit v) = v"
| "litValue (OtherExpr e) = []"

fun isValueSpec :: "Spec \<Rightarrow> bool" where
  "isValueSpec (ValueSpecS vs) = True"
| "isValueSpec _ = False"

fun isTypeSpec :: "Spec \<Rightarrow> bool" where
  "isTypeSpec (TypeSpecS ts) = True"
| "isTypeSpec _ = False"

fun specValues :: "Spec \<Rightarrow> Expr list" where
  "specValues (ValueSpecS vs) = vs_Values vs"
| "specValues _ = []"

text \<open>
  The first non-empty basic literal among the initializers of all the Specs of a
  group, read in declaration order.
\<close>

definition firstLiteral :: "Spec list \<Rightarrow> string option" where
  "firstLiteral specs = map_option litValue (find nonEmptyLit (concat (map specValues specs)))"

text \<open>The names a Spec declares, and the Spec with its own doc comment cleared.\<close>

fun specNames :: "Spec \<Rightarrow> string list" where
  "specNames (TypeSpecS ts) = [ts_Name ts]"
| "specNames (ValueSpecS vs) = vs_Names vs"
| "specNames (ImportSpecS i) = []"

definition hasName :: "string \<Rightarrow> Spec \<Rightarrow> bool" where
  "hasName symbol s = (symbol \<in> set (specNames s))"

fun withoutDoc :: "Spec \<Rightarrow> Spec" where
  "withoutDoc (TypeSpecS ts) = TypeSpecS (ts\<lparr>ts_Doc := None\<rparr>)"
| "withoutDoc (ValueSpecS vs) = ValueSpecS (vs\<lparr>vs_Doc := None\<rparr>)"
| "withoutDoc (ImportSpecS i) = ImportSpecS (i\<lparr>is_Doc := None\<rparr>)"

section \<open>The package-level lookup\<close>

text \<open>
  Modelled from the spec: PackageDoc, the package-level documentation lookup that
  IdentDoc calls for a package alias, is in another file of the repository. The spec
  says that the lookup is keyed by the canonical path of the package and that its
  record has ImportPath equal to that path and an empty Title. What the lookup finds
  under a path (the package's name and prose, or a failure) is the argument \<open>pkgs\<close>.
\<close>

definition PackageDoc :: "(string \<Rightarrow> error + string \<times> string) \<Rightarrow> string \<Rightarrow> error + Doc" where
  "PackageDoc pkgs path =
     (case pkgs path of
        Inl e \<Rightarrow> Inl e
      | Inr (name, text) \<Rightarrow>
          Inr \<lparr>doc_Import = path, doc_Name = name, doc_Title = [], doc_Doc = text\<rparr>)"

section \<open>Example inputs\<close>

definition newline :: string where
  "newline = [CHR 0x0A]"

text \<open>The Doc the first loop leaves for \<open>B\<close> of \<open>const ( A = 1; B = 2 )\<close>.\<close>

definition exTitleB :: Doc where
  "exTitleB = \<lparr>doc_Import = ''example.com/letters'', doc_Name = ''B'',
               doc_Title = ''const B = 2'', doc_Doc = []\<rparr>"

definition exSpecA :: ValueSpec where
  "exSpecA = \<lparr>vs_Doc = None, vs_Names = [''A''], vs_Values = [BasicLit ''1'']\<rparr>"

definition exSpecB :: ValueSpec where
  "exSpecB = \<lparr>vs_Doc = None, vs_Names = [''B''], vs_Values = [BasicLit ''2'']\<rparr>"

definition exConstGroup :: GenDecl where
  "exConstGroup = \<lparr>gd_Doc = Some (CommentGroup (''Letters.'' @ newline)), gd_Tok = tok_CONST,
                   gd_Lparen = 17, gd_Specs = [ValueSpecS exSpecA, ValueSpecS exSpecB],
                   gd_Rparen = 40\<rparr>"

text \<open>A struct type with a doc comment, and three of its fields.\<close>

definition exTypeGroup :: GenDecl where
  "exTypeGroup = \<lparr>gd_Doc = Some (CommentGroup (''Timer measures.'' @ newline)), gd_Tok = tok_TYPE,
                  gd_Lparen = 0,
                  gd_Specs = [TypeSpecS \<lparr>ts_Doc = None, ts_Name = ''Timer'', ts_Type = ''struct''\<rparr>],
                  gd_Rparen = 0\<rparr>"

definition exFieldDoc :: Field where
  "exFieldDoc = \<lparr>fl_Doc = Some (CommentGroup (''Start time.'' @ newline)), fl_Names = [''start''],
                 fl_Comment = Some (CommentGroup (''units: s'' @ newline))\<rparr>"

definition exFieldTrailing :: Field where
  "exFieldTrailing = \<lparr>fl_Doc = None, fl_Names = [''delay''],
                      fl_Comment = Some (CommentGroup (''units: ms'' @ newline))\<rparr>"

definition exFieldBare :: Field where
  "exFieldBare = \<lparr>fl_Doc = None, fl_Names = [''count''], fl_Comment = None\<rparr>"

definition exTitleField :: Doc where
  "exTitleField = \<lparr>doc_Import = ''example.com/timer'', doc_Name = ''count'',
                   doc_Title = ''field count int'', doc_Doc = []\<rparr>"

definition exFieldTail :: "Node list" where
  "exFieldTail = [OtherNode ''*ast.FieldList'', OtherNode ''*ast.StructType'',
                  OtherNode ''*ast.TypeSpec'', GenDeclN exTypeGroup, OtherNode ''*ast.File'']"

text \<open>A function with no doc comment, declared under nothing but the file.\<close>

definition exFuncBare :: FuncDecl where
  "exFuncBare = \<lparr>fd_Doc = None, fd_Name = ''Foo'', fd_Type = ''(x int) int'',
                 fd_Body = Some ''{ return x+1 }''\<rparr>"

definition exTitleFoo :: Doc where
  "exTitleFoo = \<lparr>doc_Import = ''example.com/foo'', doc_Name = ''Foo'',
                 doc_Title = ''func Foo(x int) int'', doc_Doc = []\<rparr>"

text \<open>
  A small printer for the examples: a group is printed with parentheses when it has a
  left parenthesis or does not hold exactly one Spec, as go/printer does; a function
  with its body when it has one; no other node.
\<close>

fun exTokText :: "Token \<Rightarrow> string" where
  "exTokText tok_IMPORT = ''import''"
| "exTokText tok_CONST = ''const''"
| "exTokText tok_TYPE = ''type''"
| "exTokText tok_VAR = ''var''"

fun exExprText :: "Expr \<Rightarrow> string" where
  "exExprText (BasicLit v) = v"
| "exExprText (OtherExpr e) = e"

fun exSpecText :: "Spec \<Rightarrow> string" where
  "exSpecText (TypeSpecS ts) = ts_Name ts @ '' '' @ ts_Type ts"
| "exSpecText (ValueSpecS vs) =
     concat (map (\<lambda>n. n @ '' '') (vs_Names vs)) @ ''= '' @ concat (map exExprText (vs_Values vs))"
| "exSpecText (ImportSpecS i) = is_Path i"

fun exFprint :: "Node \<Rightarrow> error + string" where
  "exFprint (GenDeclN g) =
     Inr (exTokText (gd_Tok g) @ '' '' @
          (if gd_Lparen g \<noteq> 0 \<or> length (gd_Specs g) \<noteq> 1
           then ''('' @ concat (map (\<lambda>s. exSpecText s @ ''; '') (gd_Specs g)) @ '')''
           else concat (map exSpecText (gd_Specs g))))"
| "exFprint (FuncDeclN f) =
     Inr (''func '' @ fd_Name f @ fd_Type f @ (case fd_Body f of None \<Rightarrow> [] | Some b \<Rightarrow> '' '' @ b))"
| "exFprint n = Inl (Errorf ''unsupported node'')"

text \<open>
  The objects of the examples: the constant \<open>B\<close>; the variable \<open>limit\<close> of
  \<open>var limit = 10\<close>, a group with no comment; the local variable \<open>x\<close> of
  \<open>var f = func() { x := 1; _ = x }\<close>; the built-in \<open>len\<close>, which has no position;
  the object \<open>broken\<close>, under a declaration that did not parse; and the package name
  \<open>f\<close> of \<open>import f "fmt"\<close>.
\<close>

definition exObjB :: Object where
  "exObjB = \<lparr>obj_Name = ''B'', obj_String = ''const example.com/letters.B untyped int'',
             obj_Pkg = Some ''example.com/letters'', obj_Pos = 35, obj_Imported = None\<rparr>"

definition exObjLimit :: Object where
  "exObjLimit = \<lparr>obj_Name = ''limit'', obj_String = ''var example.com/letters.limit int'',
                 obj_Pkg = Some ''example.com/letters'', obj_Pos = 50, obj_Imported = None\<rparr>"

definition exObjX :: Object where
  "exObjX = \<lparr>obj_Name = ''x'', obj_String = ''var x int'',
             obj_Pkg = Some ''example.com/letters'', obj_Pos = 80, obj_Imported = None\<rparr>"

definition exObjLen :: Object where
  "exObjLen = \<lparr>obj_Name = ''len'', obj_String = ''builtin len'',
               obj_Pkg = None, obj_Pos = 0, obj_Imported = None\<rparr>"

definition exObjBroken :: Object where
  "exObjBroken = \<lparr>obj_Name = ''broken'', obj_String = ''var example.com/letters.broken int'',
                  obj_Pkg = Some ''example.com/letters'', obj_Pos = 95, obj_Imported = None\<rparr>"

definition exObjFmt :: Object where
  "exObjFmt = \<lparr>obj_Name = ''f'', obj_String = ''package f (\"fmt\")'',
               obj_Pkg = Some ''example.com/letters'', obj_Pos = 10, obj_Imported = Some ''fmt''\<rparr>"

definition exLimitGroup :: GenDecl where
  "exLimitGroup = \<lparr>gd_Doc = None, gd_Tok = tok_VAR, gd_Lparen = 0,
                   gd_Specs = [ValueSpecS \<lparr>vs_Doc = None, vs_Names = [''limit''],
                                          vs_Values = [BasicLit ''10'']\<rparr>],
                   gd_Rparen = 0\<rparr>"

definition exClosureGroup :: GenDecl where
  "exClosureGroup = \<lparr>gd_Doc = None, gd_Tok = tok_VAR, gd_Lparen = 0,
                     gd_Specs = [ValueSpecS \<lparr>vs_Doc = None, vs_Names = [''f''],
                                   vs_Values = [OtherExpr ''func() { x := 1; _ = x }'']\<rparr>],
                     gd_Rparen = 0\<rparr>"

definition exImportGroup :: GenDecl where
  "exImportGroup = \<lparr>gd_Doc = None, gd_Tok = tok_IMPORT, gd_Lparen = 0,
                    gd_Specs = [ImportSpecS \<lparr>is_Doc = None, is_Path = ''\"fmt\"''\<rparr>],
                    gd_Rparen = 0\<rparr>"

definition exPathB :: "Node list" where
  "exPathB = [OtherNode ''*ast.Ident'', OtherNode ''*ast.ValueSpec'', GenDeclN exConstGroup,
              OtherNode ''*ast.File'']"

definition exPathLimit :: "Node list" where
  "exPathLimit = [OtherNode ''*ast.Ident'', OtherNode ''*ast.ValueSpec'', GenDeclN exLimitGroup,
                  OtherNode ''*ast.File'']"

definition exPathX :: "Node list" where
  "exPathX = [OtherNode ''*ast.Ident'', OtherNode ''*ast.AssignStmt'', OtherNode ''*ast.BlockStmt'',
              OtherNode ''*ast.FuncLit'', OtherNode ''*ast.ValueSpec'', GenDeclN exClosureGroup,
              OtherNode ''*ast.File'']"

definition exPathBroken :: "Node list" where
  "exPathBroken = [OtherNode ''*ast.Ident'', OtherNode ''*ast.BadDecl'', OtherNode ''*ast.File'']"

definition exPathFmt :: "Node list" where
  "exPathFmt = [OtherNode ''*ast.Ident'', OtherNode ''*ast.ImportSpec'', GenDeclN exImportGroup,
                OtherNode ''*ast.File'']"

definition exIdent :: "string \<Rightarrow> Ident" where
  "exIdent name = \<lparr>id_NamePos = 120, id_Name = name\<rparr>"

definition exInfo :: PackageInfo where
  "exInfo = \<lparr>ObjectOf = (\<lambda>i.
      if id_Name i = ''B'' then Some exObjB
      else if id_Name i = ''limit'' then Some exObjLimit
      else if id_Name i = ''x'' then Some exObjX
      else if id_Name i = ''len'' then Some exObjLen
      else if id_Name i = ''broken'' then Some exObjBroken
      else if id_Name i = ''f'' then Some exObjFmt
      else None)\<rparr>"

definition exProg :: Program where
  "exProg = \<lparr>PathEnclosingInterval = (\<lambda>start end.
      if start = 35 then exPathB
      else if start = 50 then exPathLimit
      else if start = 80 then exPathX
      else if start = 95 then exPathBroken
      else if start = 10 then exPathFmt
      else [])\<rparr>"

text \<open>Two package-level lookups: one that knows no package, one that knows \<open>fmt\<close>.\<close>

definition exNoPackageDoc :: "string \<Rightarrow> error + Doc" where
  "exNoPackageDoc path = Inl (Errorf (''cannot find package '' @ path))"

definition exPkgs :: "string \<Rightarrow> error + string \<times> string" where
  "exPkgs path =
     (if path = ''fmt'' then Inr (''fmt'', ''Package fmt implements formatted I/O.'' @ newline)
      else Inl (Errorf (''cannot find package '' @ path)))"

section \<open>The second loop\<close>

lemma docLoop_skip:
  "\<forall>m\<in>set pre. docStep doc m = Inr None \<Longrightarrow> docLoop doc (pre @ rest) = docLoop doc rest"
  by (induction pre) simp_all

lemma find_app:
  "find P (xs @ ys) = (case find P xs of None \<Rightarrow> find P ys | Some x \<Rightarrow> Some x)"
  by (induction xs) simp_all

lemma valuesLoop_find: "valuesLoop vals = map_option litValue (find nonEmptyLit vals)"
  by (induction vals rule: valuesLoop.induct) simp_all

lemma SpecLoop_firstLiteral:
  "\<forall>s\<in>set specs. isValueSpec s \<Longrightarrow>
   SpecLoop specs = Inr (case firstLiteral specs of None \<Rightarrow> [] | Some v \<Rightarrow> v)"
proof (induction specs rule: SpecLoop.induct)
  case 1
  then show ?case by (simp add: firstLiteral_def)
next
  case (2 vs specs)
  then show ?case
    by (cases "find nonEmptyLit (vs_Values vs)")
       (simp_all add: firstLiteral_def valuesLoop_find find_app)
qed simp_all

lemma find_nonEmptyLit: "find nonEmptyLit es = Some e \<Longrightarrow> litValue e \<noteq> []"
  by (induction es) (auto split: if_splits elim: nonEmptyLit.elims)

lemma firstLiteral_nonempty: "firstLiteral specs = Some v \<Longrightarrow> v \<noteq> []"
  by (auto simp: firstLiteral_def dest: find_nonEmptyLit)

lemma docStep_const_group:
  assumes "gd_Tok n = tok_CONST" and "\<forall>s\<in>set (gd_Specs n). isValueSpec s"
  shows "docStep doc (GenDeclN n) =
           (if gd_Doc n \<noteq> None
            then Inr (Some (doc\<lparr>doc_Doc := Text (gd_Doc n) @
                   (case firstLiteral (gd_Specs n) of None \<Rightarrow> [] | Some v \<Rightarrow> constantValue v)\<rparr>))
            else Inr None)"
  using assms
  by (cases "firstLiteral (gd_Specs n)")
     (auto simp: constValueOf_def SpecLoop_firstLiteral dest: firstLiteral_nonempty)

text \<open>
  C1. The walk reaches a const group after nodes that all let it go on. The Specs of a
  const group are value Specs. The literal taken is the first non-empty basic literal
  among the initializers of all the Specs, in declaration order, whichever Spec owns
  it. With a doc comment on the group the walk returns there, and the text is the
  comment's, followed by a newline, \<open>Constant Value: \<close> and the literal exactly when
  there is such a literal. With no doc comment on the group the walk does not return at
  it: it goes on with the nodes further out.
\<close>

theorem C1_const_group:
  assumes "\<forall>m\<in>set pre. docStep doc m = Inr None"
      and "gd_Tok n = tok_CONST" and "\<forall>s\<in>set (gd_Specs n). isValueSpec s"
  shows "(gd_Doc n \<noteq> None \<longrightarrow>
            docLoop doc (pre @ GenDeclN n # rest) =
              Inr (doc\<lparr>doc_Doc := Text (gd_Doc n) @
                     (case firstLiteral (gd_Specs n) of
                        None \<Rightarrow> [] | Some v \<Rightarrow> CHR 0x0A # ''Constant Value: '' @ v)\<rparr>))
       \<and> (gd_Doc n = None \<longrightarrow>
            docLoop doc (pre @ GenDeclN n # rest) = docLoop doc rest)"
  using assms
  by (simp add: docLoop_skip docStep_const_group constantValue_def
           del: docStep.simps split: option.split)

text \<open>
  For \<open>B\<close> of \<open>const ( A = 1; B = 2 )\<close> under a group comment, the text ends in the
  literal of \<open>A\<close>. With the group comment taken away, the walk passes the group and
  ends at the end of the path with the text still empty.
\<close>

theorem C1_const_group_witness:
  "docStep exTitleB (OtherNode ''*ast.Ident'') = Inr None
   \<and> docStep exTitleB (OtherNode ''*ast.ValueSpec'') = Inr None
   \<and> gd_Tok exConstGroup = tok_CONST
   \<and> isValueSpec (ValueSpecS exSpecA) \<and> isValueSpec (ValueSpecS exSpecB)
   \<and> firstLiteral (gd_Specs exConstGroup) = Some ''1''
   \<and> docLoop exTitleB ([OtherNode ''*ast.Ident'', OtherNode ''*ast.ValueSpec'']
        @ GenDeclN exConstGroup # [OtherNode ''*ast.File''])
      = Inr (exTitleB\<lparr>doc_Doc := ''Letters.'' @ newline @ newline @ ''Constant Value: 1''\<rparr>)
   \<and> docLoop exTitleB ([OtherNode ''*ast.Ident'', OtherNode ''*ast.ValueSpec'']
        @ GenDeclN (exConstGroup\<lparr>gd_Doc := None\<rparr>) # [OtherNode ''*ast.File''])
      = Inr exTitleB"
  using C1_const_group [of "[OtherNode ''*ast.Ident'', OtherNode ''*ast.ValueSpec'']"
          exTitleB exConstGroup "[OtherNode ''*ast.File'']"]
        C1_const_group [of "[OtherNode ''*ast.Ident'', OtherNode ''*ast.ValueSpec'']"
          exTitleB "exConstGroup\<lparr>gd_Doc := None\<rparr>" "[OtherNode ''*ast.File'']"]
  by (simp add: exConstGroup_def exSpecA_def exSpecB_def firstLiteral_def newline_def)

text \<open>
  C2, as the code has it. The walk reaches a field after nodes that all let it go on.
  With a leading doc comment the walk returns at the field with that comment's text;
  with none but a trailing comment it returns at the field with the trailing comment's
  text; with neither, the walk does not return at the field: it goes on with the nodes
  further out.
\<close>

theorem C2_field:
  assumes "\<forall>m\<in>set pre. docStep doc m = Inr None"
  shows "(fl_Doc n \<noteq> None \<longrightarrow>
            docLoop doc (pre @ FieldN n # rest) = Inr (doc\<lparr>doc_Doc := Text (fl_Doc n)\<rparr>))
       \<and> (fl_Doc n = None \<longrightarrow> fl_Comment n \<noteq> None \<longrightarrow>
            docLoop doc (pre @ FieldN n # rest) = Inr (doc\<lparr>doc_Doc := Text (fl_Comment n)\<rparr>))
       \<and> (fl_Doc n = None \<longrightarrow> fl_Comment n = None \<longrightarrow>
            docLoop doc (pre @ FieldN n # rest) = docLoop doc rest)"
  using assms by (simp add: docLoop_skip)

theorem C2_field_witness:
  "docStep exTitleField (OtherNode ''*ast.Ident'') = Inr None
   \<and> docLoop exTitleField ([OtherNode ''*ast.Ident''] @ FieldN exFieldDoc # exFieldTail)
      = Inr (exTitleField\<lparr>doc_Doc := ''Start time.'' @ newline\<rparr>)
   \<and> docLoop exTitleField ([OtherNode ''*ast.Ident''] @ FieldN exFieldTrailing # exFieldTail)
      = Inr (exTitleField\<lparr>doc_Doc := ''units: ms'' @ newline\<rparr>)
   \<and> docLoop exTitleField ([OtherNode ''*ast.Ident''] @ FieldN exFieldBare # exFieldTail)
      = docLoop exTitleField exFieldTail"
  using C2_field [of "[OtherNode ''*ast.Ident'']" exTitleField exFieldDoc exFieldTail]
        C2_field [of "[OtherNode ''*ast.Ident'']" exTitleField exFieldTrailing exFieldTail]
        C2_field [of "[OtherNode ''*ast.Ident'']" exTitleField exFieldBare exFieldTail]
  by (simp add: exFieldDoc_def exFieldTrailing_def exFieldBare_def)

text \<open>
  A field with neither comment inside a documented struct type: the walk does not
  return at the field; it goes on outward and returns at the type's group, with the
  group's comment.
\<close>

theorem C2_field_counterexample:
  "docStep exTitleField (FieldN exFieldBare) = Inr None
   \<and> docLoop exTitleField (OtherNode ''*ast.Ident'' # FieldN exFieldBare # exFieldTail)
      = Inr (exTitleField\<lparr>doc_Doc := ''Timer measures.'' @ newline\<rparr>)"
  by (simp add: exFieldBare_def exFieldTail_def exTypeGroup_def constValueOf_def)

text \<open>
  C4. The walk reaches a function declaration after nodes that all let it go on. It
  returns there, whatever lies further out, with the text of the function's doc
  comment, which is the empty string when the function has none.
\<close>

theorem C4_FuncDecl_ends_walk:
  assumes "\<forall>m\<in>set pre. docStep doc m = Inr None"
  shows "docLoop doc (pre @ FuncDeclN n # rest) = Inr (doc\<lparr>doc_Doc := Text (fd_Doc n)\<rparr>)
       \<and> (fd_Doc n = None \<longrightarrow> docLoop doc (pre @ FuncDeclN n # rest) = Inr (doc\<lparr>doc_Doc := []\<rparr>))"
  using assms by (simp add: docLoop_skip)

theorem C4_FuncDecl_ends_walk_witness:
  "docStep exTitleFoo (OtherNode ''*ast.Ident'') = Inr None
   \<and> fd_Doc exFuncBare = None
   \<and> docLoop exTitleFoo ([OtherNode ''*ast.Ident''] @ FuncDeclN exFuncBare # [OtherNode ''*ast.File''])
      = Inr (exTitleFoo\<lparr>doc_Doc := []\<rparr>)"
  using C4_FuncDecl_ends_walk [of "[OtherNode ''*ast.Ident'']" exTitleFoo exFuncBare
          "[OtherNode ''*ast.File'']"]
  by (simp add: exFuncBare_def)

section \<open>Rendering a group\<close>

lemma findTypeSpec_loop_first:
  "list_all isTypeSpec (before @ s # after) \<Longrightarrow> \<forall>b\<in>set before. \<not> hasName symbol b \<Longrightarrow>
   hasName symbol s \<Longrightarrow>
   \<exists>ts. s = TypeSpecS ts \<and> findTypeSpec_loop (before @ s # after) symbol = Inr (Some ts)"
proof (induction before)
  case Nil
  then show ?case by (cases s) (simp_all add: hasName_def)
next
  case (Cons b before)
  then show ?case by (cases b) (simp_all add: hasName_def)
qed

lemma findTypeSpec_loop_none:
  "list_all isTypeSpec specs \<Longrightarrow> \<forall>b\<in>set specs. \<not> hasName symbol b \<Longrightarrow>
   findTypeSpec_loop specs symbol = Inr None"
proof (induction specs)
  case Nil
  then show ?case by simp
next
  case (Cons b specs)
  then show ?case by (cases b) (simp_all add: hasName_def)
qed

lemma findVarSpec_loop_first:
  "list_all isValueSpec (before @ s # after) \<Longrightarrow> \<forall>b\<in>set before. \<not> hasName symbol b \<Longrightarrow>
   hasName symbol s \<Longrightarrow>
   \<exists>vs. s = ValueSpecS vs \<and> findVarSpec_loop (before @ s # after) symbol = Inr (Some vs)"
proof (induction before)
  case Nil
  then show ?case by (cases s) (simp_all add: hasName_def)
next
  case (Cons b before)
  then show ?case by (cases b) (simp_all add: hasName_def)
qed

lemma findVarSpec_loop_none:
  "list_all isValueSpec specs \<Longrightarrow> \<forall>b\<in>set specs. \<not> hasName symbol b \<Longrightarrow>
   findVarSpec_loop specs symbol = Inr None"
proof (induction specs)
  case Nil
  then show ?case by simp
next
  case (Cons b specs)
  then show ?case by (cases b) (simp_all add: hasName_def)
qed

lemma head_TypeSpec:
  "specs \<noteq> [] \<Longrightarrow> list_all isTypeSpec specs \<Longrightarrow> \<exists>t ss. specs = TypeSpecS t # ss"
  by (cases specs) (auto elim: isTypeSpec.elims)

lemma head_ValueSpec:
  "specs \<noteq> [] \<Longrightarrow> list_all isValueSpec specs \<Longrightarrow> \<exists>v ss. specs = ValueSpecS v # ss"
  by (cases specs) (auto elim: isValueSpec.elims)

lemma printedCopy_types:
  assumes "gd_Specs n = before @ s # after" and "list_all isTypeSpec (gd_Specs n)"
      and "\<forall>b\<in>set before. \<not> hasName (obj_Name obj) b" and "hasName (obj_Name obj) s"
  shows "printedCopy (GenDeclN n) obj =
           Inr (Some (GenDeclN (n\<lparr>gd_Doc := None, gd_Specs := [withoutDoc s],
                                   gd_Lparen := 0, gd_Rparen := 0\<rparr>)))"
proof -
  from assms obtain ts where ts: "s = TypeSpecS ts"
    "findTypeSpec_loop (gd_Specs n) (obj_Name obj) = Inr (Some ts)"
    using findTypeSpec_loop_first [of before s after "obj_Name obj"] by auto
  from assms(1,2) obtain t ss where hd: "gd_Specs n = TypeSpecS t # ss"
    using head_TypeSpec [of "gd_Specs n"] by auto
  show ?thesis using ts hd by (simp add: findTypeSpec_def)
qed

lemma printedCopy_values:
  assumes "gd_Specs n = before @ s # after" and "list_all isValueSpec (gd_Specs n)"
      and "\<forall>b\<in>set before. \<not> hasName (obj_Name obj) b" and "hasName (obj_Name obj) s"
  shows "printedCopy (GenDeclN n) obj =
           Inr (Some (GenDeclN (n\<lparr>gd_Doc := None, gd_Specs := [withoutDoc s],
                                   gd_Lparen := 0, gd_Rparen := 0\<rparr>)))"
proof -
  from assms obtain vs where vs: "s = ValueSpecS vs"
    "findVarSpec_loop (gd_Specs n) (obj_Name obj) = Inr (Some vs)"
    using findVarSpec_loop_first [of before s after "obj_Name obj"] by auto
  from assms(1,2) obtain v ss where hd: "gd_Specs n = ValueSpecS v # ss"
    using head_ValueSpec [of "gd_Specs n"] by auto
  show ?thesis using vs hd by (simp add: findVarSpec_def)
qed

lemma printedCopy_first:
  assumes "gd_Specs n = before @ s # after"
      and "list_all isTypeSpec (gd_Specs n) \<or> list_all isValueSpec (gd_Specs n)"
      and "\<forall>b\<in>set before. \<not> hasName (obj_Name obj) b" and "hasName (obj_Name obj) s"
  shows "printedCopy (GenDeclN n) obj =
           Inr (Some (GenDeclN (n\<lparr>gd_Doc := None, gd_Specs := [withoutDoc s],
                                   gd_Lparen := 0, gd_Rparen := 0\<rparr>)))"
  using assms printedCopy_types printedCopy_values by blast

lemma printedCopy_missing:
  assumes "gd_Specs n \<noteq> []"
      and "list_all isTypeSpec (gd_Specs n) \<or> list_all isValueSpec (gd_Specs n)"
      and "\<forall>b\<in>set (gd_Specs n). \<not> hasName (obj_Name obj) b"
  shows "printedCopy (GenDeclN n) obj = Inl NilDereference"
proof -
  from assms(1) obtain s ss where hd: "gd_Specs n = s # ss" by (cases "gd_Specs n") auto
  from assms(2) show ?thesis
  proof
    assume t: "list_all isTypeSpec (gd_Specs n)"
    with hd obtain ts where "s = TypeSpecS ts" by (cases s) auto
    with hd t assms(3) findTypeSpec_loop_none [of "gd_Specs n" "obj_Name obj"]
    show ?thesis by (simp add: findTypeSpec_def)
  next
    assume v: "list_all isValueSpec (gd_Specs n)"
    with hd obtain vs where "s = ValueSpecS vs" by (cases s) auto
    with hd v assms(3) findVarSpec_loop_none [of "gd_Specs n" "obj_Name obj"]
    show ?thesis by (simp add: findVarSpec_def)
  qed
qed

text \<open>
  C5. A group of type Specs or of value Specs is rendered for a target name that one of
  its Specs declares. Let \<open>s\<close> be the first Spec of the group whose names include the
  target. The node handed to the printer is the group with its doc comment cleared,
  both parenthesis positions set to \<open>token.NoPos\<close>, and \<open>s\<close>, with its own doc comment
  cleared, as its only Spec: no sibling Spec is left. The rendering is what the printer
  makes of that node (\<open>obj.String()\<close> if the printer fails).
\<close>

theorem C5_group_rendering:
  assumes "list_all isTypeSpec (gd_Specs n) \<or> list_all isValueSpec (gd_Specs n)"
      and "\<exists>s\<in>set (gd_Specs n). obj_Name obj \<in> set (specNames s)"
  shows "\<exists>before s after.
           gd_Specs n = before @ s # after
         \<and> obj_Name obj \<in> set (specNames s)
         \<and> (\<forall>b\<in>set before. obj_Name obj \<notin> set (specNames b))
         \<and> formatNode Fprint (GenDeclN n) obj =
             Inr (printOr Fprint obj
                    (GenDeclN \<lparr>gd_Doc = None, gd_Tok = gd_Tok n, gd_Lparen = 0,
                               gd_Specs = [withoutDoc s], gd_Rparen = 0\<rparr>))"
proof -
  from assms(2) have "\<exists>s\<in>set (gd_Specs n). hasName (obj_Name obj) s" by (simp add: hasName_def)
  then obtain before s after where split: "gd_Specs n = before @ s # after"
    "hasName (obj_Name obj) s" "\<forall>b\<in>set before. \<not> hasName (obj_Name obj) b"
    using split_list_first_prop [of "gd_Specs n" "hasName (obj_Name obj)"] by blast
  with assms(1) have "printedCopy (GenDeclN n) obj =
      Inr (Some (GenDeclN (n\<lparr>gd_Doc := None, gd_Specs := [withoutDoc s],
                              gd_Lparen := 0, gd_Rparen := 0\<rparr>)))"
    using printedCopy_first [of n before s after obj] by simp
  moreover have "n\<lparr>gd_Doc := None, gd_Specs := [withoutDoc s], gd_Lparen := 0, gd_Rparen := 0\<rparr>
      = \<lparr>gd_Doc = None, gd_Tok = gd_Tok n, gd_Lparen = 0, gd_Specs = [withoutDoc s], gd_Rparen = 0\<rparr>"
    by simp
  ultimately have "formatNode Fprint (GenDeclN n) obj =
             Inr (printOr Fprint obj
                    (GenDeclN \<lparr>gd_Doc = None, gd_Tok = gd_Tok n, gd_Lparen = 0,
                               gd_Specs = [withoutDoc s], gd_Rparen = 0\<rparr>))"
    by (simp add: formatNode_def)
  with split show ?thesis unfolding hasName_def by blast
qed

text \<open>
  \<open>B\<close> of \<open>const ( A = 1; B = 2 )\<close>: the example printer gives \<open>const B = 2\<close> for the
  node formatNode hands it, and prints both Specs in parentheses for the group itself.
\<close>

theorem C5_group_rendering_witness:
  "list_all isValueSpec (gd_Specs exConstGroup)
   \<and> obj_Name exObjB \<in> set (specNames (ValueSpecS exSpecB))
   \<and> gd_Specs exConstGroup = [ValueSpecS exSpecA] @ ValueSpecS exSpecB # []
   \<and> obj_Name exObjB \<notin> set (specNames (ValueSpecS exSpecA))
   \<and> formatNode exFprint (GenDeclN exConstGroup) exObjB =
        Inr (printOr exFprint exObjB
               (GenDeclN \<lparr>gd_Doc = None, gd_Tok = tok_CONST, gd_Lparen = 0,
                          gd_Specs = [ValueSpecS exSpecB], gd_Rparen = 0\<rparr>))
   \<and> formatNode exFprint (GenDeclN exConstGroup) exObjB = Inr ''const B = 2''
   \<and> exFprint (GenDeclN exConstGroup) = Inr ''const (A = 1; B = 2; )''"
  using C5_group_rendering [of exConstGroup exObjB exFprint]
  by (simp add: exConstGroup_def exObjB_def exSpecA_def exSpecB_def formatNode_def
        findVarSpec_def printOr_def)

text \<open>
  C10. For a non-empty group of type Specs or of value Specs: the find that formatNode
  calls returns nil exactly when no Spec of the group has the target's name among its
  names, and formatNode ends in a nil-pointer dereference exactly then. When some Spec
  has the name, the find returns a Spec and formatNode yields a string.
\<close>

theorem C10_nil_spec:
  assumes "gd_Specs n \<noteq> []"
      and "list_all isTypeSpec (gd_Specs n) \<or> list_all isValueSpec (gd_Specs n)"
  shows "(list_all isTypeSpec (gd_Specs n) \<longrightarrow>
            (findTypeSpec n (obj_Name obj) = Inr None)
              = (\<not> (\<exists>s\<in>set (gd_Specs n). obj_Name obj \<in> set (specNames s))))
       \<and> (list_all isValueSpec (gd_Specs n) \<longrightarrow>
            (findVarSpec n (obj_Name obj) = Inr None)
              = (\<not> (\<exists>s\<in>set (gd_Specs n). obj_Name obj \<in> set (specNames s))))
       \<and> (formatNode Fprint (GenDeclN n) obj = Inl NilDereference)
              = (\<not> (\<exists>s\<in>set (gd_Specs n). obj_Name obj \<in> set (specNames s)))
       \<and> ((\<exists>s\<in>set (gd_Specs n). obj_Name obj \<in> set (specNames s)) \<longrightarrow>
            (\<exists>title. formatNode Fprint (GenDeclN n) obj = Inr title))"
proof (cases "\<exists>s\<in>set (gd_Specs n). hasName (obj_Name obj) s")
  case True
  then obtain before s after where split: "gd_Specs n = before @ s # after"
    "hasName (obj_Name obj) s" "\<forall>b\<in>set before. \<not> hasName (obj_Name obj) b"
    using split_list_first_prop [of "gd_Specs n" "hasName (obj_Name obj)"] by blast
  have t: "list_all isTypeSpec (gd_Specs n) \<Longrightarrow> findTypeSpec n (obj_Name obj) \<noteq> Inr None"
    using findTypeSpec_loop_first [of before s after "obj_Name obj"] split
    by (auto simp: findTypeSpec_def)
  have v: "list_all isValueSpec (gd_Specs n) \<Longrightarrow> findVarSpec n (obj_Name obj) \<noteq> Inr None"
    using findVarSpec_loop_first [of before s after "obj_Name obj"] split
    by (auto simp: findVarSpec_def)
  have "\<exists>nc. printedCopy (GenDeclN n) obj = Inr (Some nc)"
    using printedCopy_first [OF split(1) assms(2) split(3) split(2)] by simp
  then have f: "\<exists>title. formatNode Fprint (GenDeclN n) obj = Inr title"
    by (auto simp: formatNode_def)
  then have "formatNode Fprint (GenDeclN n) obj \<noteq> Inl NilDereference" by auto
  with True t v f show ?thesis unfolding hasName_def by blast
next
  case False
  then have none: "\<forall>b\<in>set (gd_Specs n). \<not> hasName (obj_Name obj) b" by blast
  have t: "list_all isTypeSpec (gd_Specs n) \<Longrightarrow> findTypeSpec n (obj_Name obj) = Inr None"
    using findTypeSpec_loop_none [of "gd_Specs n" "obj_Name obj"] none
    by (simp add: findTypeSpec_def)
  have v: "list_all isValueSpec (gd_Specs n) \<Longrightarrow> findVarSpec n (obj_Name obj) = Inr None"
    using findVarSpec_loop_none [of "gd_Specs n" "obj_Name obj"] none
    by (simp add: findVarSpec_def)
  have "formatNode Fprint (GenDeclN n) obj = Inl NilDereference"
    using printedCopy_missing [OF assms none] by (simp add: formatNode_def)
  with False t v show ?thesis unfolding hasName_def by blast
qed

text \<open>
  The local variable \<open>x\<close> of \<open>var f = func() { x := 1; _ = x }\<close>: the only Spec
  declares \<open>f\<close>, the find returns nil, and formatNode panics. The constant \<open>B\<close> of
  \<open>const ( A = 1; B = 2 )\<close>: the find returns the second Spec.
\<close>

theorem C10_nil_spec_witness:
  "gd_Specs exClosureGroup \<noteq> []
   \<and> list_all isValueSpec (gd_Specs exClosureGroup)
   \<and> obj_Name exObjX \<notin> set (specNames (hd (gd_Specs exClosureGroup)))
   \<and> findVarSpec exClosureGroup (obj_Name exObjX) = Inr None
   \<and> formatNode exFprint (GenDeclN exClosureGroup) exObjX = Inl NilDereference
   \<and> gd_Specs exConstGroup \<noteq> []
   \<and> list_all isValueSpec (gd_Specs exConstGroup)
   \<and> obj_Name exObjB \<in> set (specNames (ValueSpecS exSpecB))
   \<and> findVarSpec exConstGroup (obj_Name exObjB) \<noteq> Inr None
   \<and> formatNode exFprint (GenDeclN exConstGroup) exObjB \<noteq> Inl NilDereference"
  using C10_nil_spec [of exClosureGroup exObjX exFprint]
        C10_nil_spec [of exConstGroup exObjB exFprint]
  by (simp add: exClosureGroup_def exConstGroup_def exObjX_def exObjB_def exSpecA_def exSpecB_def)

lemma formatNode_fallback:
  "formatNode Fprint (FieldN f) obj = Inr (obj_String obj)"
  "formatNode Fprint (OtherNode k) obj = Inr (obj_String obj)"
  "formatNode Fprint (FuncDeclN fd) obj =
     Inr (printOr Fprint obj (FuncDeclN (fd\<lparr>fd_Doc := None, fd_Body := None\<rparr>)))"
  "Fprint nc = Inl e \<Longrightarrow> printOr Fprint obj nc = obj_String obj"
  "Fprint nc = Inr buf \<Longrightarrow> printOr Fprint obj nc = buf"
  by (simp_all add: formatNode_def printOr_def)

text \<open>
  C6. formatNode is not total. For the local variable \<open>x\<close> of
  \<open>var f = func() { x := 1; _ = x }\<close> the first declaration node on the path is the
  \<open>var\<close> group, whose only Spec declares \<open>f\<close>: findVarSpec returns nil, formatNode
  dereferences it, and the panic leaves IdentDoc. The fallbacks the claim names do hold,
  see \<open>formatNode_fallback\<close>.
\<close>

theorem C6_formatNode_panics:
  "formatNode exFprint (GenDeclN exClosureGroup) exObjX = Inl NilDereference
   \<and> IdentDoc exNoPackageDoc exFprint (exIdent ''x'') exInfo exProg = Inl NilDereference"
  by (simp add: IdentDoc_def formatNode_def findVarSpec_def exClosureGroup_def exObjX_def
        exIdent_def exInfo_def exProg_def exPathX_def)

section \<open>The lookup as a whole\<close>






lemma titleLoop_Doc:
  "titleLoop Fprint obj pkgPath nodes = Inr (Some doc) \<Longrightarrow> doc_Doc doc = []"
  by (induction nodes) (auto split: if_splits sum.splits)

lemma docStep_goes_on:
  "(docStep doc m = Inr None) =
     (case m of
        FuncDeclN f \<Rightarrow> False
      | GenDeclN g \<Rightarrow> gd_Doc g = None \<and> (\<exists>constValue. constValueOf g = Inr constValue)
      | FieldN f \<Rightarrow> fl_Doc f = None \<and> fl_Comment f = None
      | OtherNode k \<Rightarrow> True)"
  by (cases m) (auto split: sum.splits)

lemma IdentDoc_chain:
  assumes "ObjectOf info ident = Some obj" and "obj_Imported obj = None"
  shows "IdentDoc pkgDoc Fprint ident info prog =
           (let nodes = PathEnclosingInterval prog (obj_Pos obj) (obj_Pos obj) in
            if nodes = [] then Inl (noDocumentation obj)
            else case titleLoop Fprint obj (case obj_Pkg obj of None \<Rightarrow> [] | Some path \<Rightarrow> path) nodes of
                   Inl e \<Rightarrow> Inl e
                 | Inr None \<Rightarrow> Inl (noDocumentation obj)
                 | Inr (Some doc) \<Rightarrow> docLoop doc nodes)"
  using assms by (simp add: IdentDoc_def Let_def)



text \<open>
  C8. The object is not a package name (for a package name no path is computed). With
  an empty enclosing path the lookup fails with the error
  \<open>No documentation found for <name>\<close>. With a non-empty path the lookup is the Title
  selection and what follows it: no other failure comes before the Title selection.
\<close>

theorem C8_empty_chain:
  assumes "ObjectOf info ident = Some obj" and "obj_Imported obj = None"
  shows "(PathEnclosingInterval prog (obj_Pos obj) (obj_Pos obj) = [] \<longrightarrow>
            IdentDoc pkgDoc Fprint ident info prog =
              Inl (Errorf (''No documentation found for '' @ obj_Name obj)))
       \<and> (PathEnclosingInterval prog (obj_Pos obj) (obj_Pos obj) \<noteq> [] \<longrightarrow>
            IdentDoc pkgDoc Fprint ident info prog =
              (case titleLoop Fprint obj (case obj_Pkg obj of None \<Rightarrow> [] | Some path \<Rightarrow> path)
                      (PathEnclosingInterval prog (obj_Pos obj) (obj_Pos obj)) of
                 Inl e \<Rightarrow> Inl e
               | Inr None \<Rightarrow> Inl (Errorf (''No documentation found for '' @ obj_Name obj))
               | Inr (Some doc) \<Rightarrow>
                   docLoop doc (PathEnclosingInterval prog (obj_Pos obj) (obj_Pos obj))))"
  using assms
  by (simp add: IdentDoc_chain noDocumentation_def Let_def split: sum.splits option.splits)

theorem C8_empty_chain_witness:
  "ObjectOf exInfo (exIdent ''len'') = Some exObjLen
   \<and> obj_Imported exObjLen = None
   \<and> PathEnclosingInterval exProg (obj_Pos exObjLen) (obj_Pos exObjLen) = []
   \<and> IdentDoc exNoPackageDoc exFprint (exIdent ''len'') exInfo exProg
        = Inl (Errorf ''No documentation found for len'')
   \<and> ObjectOf exInfo (exIdent ''limit'') = Some exObjLimit
   \<and> obj_Imported exObjLimit = None
   \<and> PathEnclosingInterval exProg (obj_Pos exObjLimit) (obj_Pos exObjLimit) \<noteq> []
   \<and> titleLoop exFprint exObjLimit ''example.com/letters'' exPathLimit
        = Inr (Some \<lparr>doc_Import = ''example.com/letters'', doc_Name = ''limit'',
                     doc_Title = ''var limit = 10'', doc_Doc = []\<rparr>)
   \<and> IdentDoc exNoPackageDoc exFprint (exIdent ''limit'') exInfo exProg
        = docLoop \<lparr>doc_Import = ''example.com/letters'', doc_Name = ''limit'',
                   doc_Title = ''var limit = 10'', doc_Doc = []\<rparr> exPathLimit"
  using C8_empty_chain [of exInfo "exIdent ''len''" exObjLen exProg exNoPackageDoc exFprint]
        C8_empty_chain [of exInfo "exIdent ''limit''" exObjLimit exProg exNoPackageDoc exFprint]
  by (simp add: exInfo_def exIdent_def exProg_def exObjLen_def exObjLimit_def exPathLimit_def
        exLimitGroup_def formatNode_def findVarSpec_def printOr_def)

text \<open>
  C9. The object is not a package name, the first loop found a Title on its enclosing
  path, and every turn of the second loop goes on to the next node
  (see \<open>docStep_goes_on\<close>). Then the lookup succeeds: it returns the Doc of the first
  loop, whose text is empty.
\<close>

theorem C9_exhausted_walk:
  assumes "ObjectOf info ident = Some obj" and "obj_Imported obj = None"
      and "PathEnclosingInterval prog (obj_Pos obj) (obj_Pos obj) = nodes"
      and "titleLoop Fprint obj (case obj_Pkg obj of None \<Rightarrow> [] | Some path \<Rightarrow> path) nodes
             = Inr (Some doc)"
      and "\<forall>m\<in>set nodes. docStep doc m = Inr None"
  shows "IdentDoc pkgDoc Fprint ident info prog = Inr doc \<and> doc_Doc doc = []"
proof -
  from assms(4) have ne: "nodes \<noteq> []" by auto
  from assms(5) have "docLoop doc (nodes @ []) = docLoop doc []" by (rule docLoop_skip)
  then have walk: "docLoop doc nodes = Inr doc" by simp
  from assms(4) have "doc_Doc doc = []" by (rule titleLoop_Doc)
  with assms ne walk show ?thesis by (simp add: IdentDoc_chain)
qed

theorem C9_exhausted_walk_witness:
  "ObjectOf exInfo (exIdent ''limit'') = Some exObjLimit
   \<and> obj_Imported exObjLimit = None
   \<and> PathEnclosingInterval exProg (obj_Pos exObjLimit) (obj_Pos exObjLimit) = exPathLimit
   \<and> titleLoop exFprint exObjLimit ''example.com/letters'' exPathLimit
        = Inr (Some \<lparr>doc_Import = ''example.com/letters'', doc_Name = ''limit'',
                     doc_Title = ''var limit = 10'', doc_Doc = []\<rparr>)
   \<and> list_all (\<lambda>m. docStep \<lparr>doc_Import = ''example.com/letters'', doc_Name = ''limit'',
                     doc_Title = ''var limit = 10'', doc_Doc = []\<rparr> m = Inr None) exPathLimit
   \<and> IdentDoc exNoPackageDoc exFprint (exIdent ''limit'') exInfo exProg
        = Inr \<lparr>doc_Import = ''example.com/letters'', doc_Name = ''limit'',
               doc_Title = ''var limit = 10'', doc_Doc = []\<rparr>"
  using C9_exhausted_walk [of exInfo "exIdent ''limit''" exObjLimit exProg exPathLimit exFprint
          "\<lparr>doc_Import = ''example.com/letters'', doc_Name = ''limit'',
            doc_Title = ''var limit = 10'', doc_Doc = []\<rparr>" exNoPackageDoc]
  by (simp add: exInfo_def exIdent_def exProg_def exObjLimit_def exPathLimit_def
        exLimitGroup_def formatNode_def findVarSpec_def printOr_def constValueOf_def)

text \<open>
  C7. For a package name, the lookup is the package-level lookup at the imported
  package's path: the result does not depend on the program's enclosing paths or on the
  printer, and a returned record has that path as its import path and an empty Title.
\<close>

theorem C7_package_alias:
  assumes "ObjectOf info ident = Some obj" and "obj_Imported obj = Some path"
  shows "IdentDoc (PackageDoc pkgs) Fprint ident info prog = PackageDoc pkgs path
       \<and> IdentDoc (PackageDoc pkgs) Fprint ident info prog
           = IdentDoc (PackageDoc pkgs) Fprint' ident info prog'
       \<and> (\<forall>d. IdentDoc (PackageDoc pkgs) Fprint ident info prog = Inr d \<longrightarrow>
                doc_Import d = path \<and> doc_Title d = [])"
  using assms by (auto simp: IdentDoc_def PackageDoc_def split: sum.splits)

theorem C7_package_alias_witness:
  "ObjectOf exInfo (exIdent ''f'') = Some exObjFmt
   \<and> obj_Imported exObjFmt = Some ''fmt''
   \<and> IdentDoc (PackageDoc exPkgs) exFprint (exIdent ''f'') exInfo exProg
        = Inr \<lparr>doc_Import = ''fmt'', doc_Name = ''fmt'', doc_Title = [],
               doc_Doc = ''Package fmt implements formatted I/O.'' @ newline\<rparr>"
  using C7_package_alias [of exInfo "exIdent ''f''" exObjFmt "''fmt''" exPkgs exFprint exProg]
  by (simp add: exInfo_def exIdent_def exObjFmt_def exPkgs_def PackageDoc_def)

end
